theory Spec2Isabelle
  imports Main
begin

section \<open>Python values and the operations the parser applies to them\<close>

text \<open>
  \<^verbatim>\<open>xiaomi_parser.py\<close> works on what \<^verbatim>\<open>json.loads\<close> returns: \<^verbatim>\<open>None\<close>, booleans,
  numbers, strings, lists and dicts, with no static type. A dict is an association list
  in insertion order (the order \<^verbatim>\<open>.items()\<close> iterates in). Numbers are integers, as
  every \<^verbatim>\<open>frequency\<close> of the dumps is.
\<close>

datatype json =
    JNull
  | JBool bool
  | JInt int
  | JStr string
  | JList "json list"
  | JObj "(string \<times> json) list"

datatype error =
    KeyError string
  | TypeError
  | AttributeError
  | AssertionError
  | DecodeError

definition ebind :: "error + 'a \<Rightarrow> ('a \<Rightarrow> error + 'b) \<Rightarrow> error + 'b" where
  "ebind m f = (case m of Inl e \<Rightarrow> Inl e | Inr x \<Rightarrow> f x)"

text \<open>A list comprehension or a loop whose body may raise: the first error ends it.\<close>

fun emap :: "('a \<Rightarrow> error + 'b) \<Rightarrow> 'a list \<Rightarrow> error + 'b list" where
  "emap f [] = Inr []"
| "emap f (x # xs) = ebind (f x) (\<lambda>y. ebind (emap f xs) (\<lambda>ys. Inr (y # ys)))"

text \<open>\<^verbatim>\<open>not v\<close> is the negation of Python's truth value of \<open>v\<close>.\<close>

fun py_truthy :: "json \<Rightarrow> bool" where
  "py_truthy JNull = False"
| "py_truthy (JBool b) = b"
| "py_truthy (JInt i) = (i \<noteq> 0)"
| "py_truthy (JStr s) = (s \<noteq> [])"
| "py_truthy (JList xs) = (xs \<noteq> [])"
| "py_truthy (JObj d) = (d \<noteq> [])"

text \<open>\<^verbatim>\<open>v[k]\<close> with a string key: only a dict accepts it.\<close>

fun py_getitem :: "json \<Rightarrow> string \<Rightarrow> error + json" where
  "py_getitem (JObj d) k = (case map_of d k of None \<Rightarrow> Inl (KeyError k) | Some x \<Rightarrow> Inr x)"
| "py_getitem v k = Inl TypeError"

fun starts_with :: "string \<Rightarrow> string \<Rightarrow> bool" where
  "starts_with [] s = True"
| "starts_with (c # cs) [] = False"
| "starts_with (c # cs) (x # xs) = (c = x \<and> starts_with cs xs)"

fun py_substring :: "string \<Rightarrow> string \<Rightarrow> bool" where
  "py_substring k [] = (k = [])"
| "py_substring k (x # xs) = (starts_with k (x # xs) \<or> py_substring k xs)"

text \<open>
  \<^verbatim>\<open>k in v\<close> with a string \<open>k\<close>: a key of a dict, an element of a list, a substring
  of a string; the other values are not containers.
\<close>

fun py_in :: "string \<Rightarrow> json \<Rightarrow> error + bool" where
  "py_in k (JObj d) = Inr (map_of d k \<noteq> None)"
| "py_in k (JList xs) = Inr (List.member xs (JStr k))"
| "py_in k (JStr s) = Inr (py_substring k s)"
| "py_in k v = Inl TypeError"

text \<open>\<^verbatim>\<open>for x in v\<close>: the elements of a list, the keys of a dict, the characters of a string.\<close>

fun py_iter :: "json \<Rightarrow> error + json list" where
  "py_iter (JList xs) = Inr xs"
| "py_iter (JObj d) = Inr (map (\<lambda>p. JStr (fst p)) d)"
| "py_iter (JStr s) = Inr (map (\<lambda>c. JStr [c]) s)"
| "py_iter v = Inl TypeError"

text \<open>\<^verbatim>\<open>v.get(k, default)\<close> and \<^verbatim>\<open>v.items()\<close> are methods of dicts only.\<close>

definition dict_get :: "(string \<times> json) list \<Rightarrow> string \<Rightarrow> json \<Rightarrow> json" where
  "dict_get d k dflt = (case map_of d k of None \<Rightarrow> dflt | Some x \<Rightarrow> x)"

fun py_get :: "json \<Rightarrow> string \<Rightarrow> json \<Rightarrow> error + json" where
  "py_get (JObj d) k dflt = Inr (dict_get d k dflt)"
| "py_get v k dflt = Inl AttributeError"

fun py_items :: "json \<Rightarrow> error + (string \<times> json) list" where
  "py_items (JObj d) = Inr d"
| "py_items v = Inl AttributeError"

text \<open>\<^verbatim>\<open>d[k] = v\<close>: a present key keeps its place, a new one goes last.\<close>

fun dict_set :: "string \<Rightarrow> 'v \<Rightarrow> (string \<times> 'v) list \<Rightarrow> (string \<times> 'v) list" where
  "dict_set k v [] = [(k, v)]"
| "dict_set k v (p # ps) = (if fst p = k then (k, v) # ps else p # dict_set k v ps)"

section \<open>load\_brand\_codes\<close>

text \<open>
  The generator \<^verbatim>\<open>parse_others_section\<close>: for each entry of the section, the list of its
  buttons (one per item of its \<^verbatim>\<open>key\<close> dict) and its \<^verbatim>\<open>source\<close>. The comprehension
  reads \<^verbatim>\<open>json_model["frequency"]\<close> once per item, so not at all for an empty dict.
\<close>

definition other_buttons :: "json \<Rightarrow> error + json list" where
  "other_buttons json_model =
     ebind (py_getitem json_model ''key'') (\<lambda>key.
     ebind (py_items key) (\<lambda>items.
     emap (\<lambda>(name, ircode).
             ebind (py_getitem json_model ''frequency'') (\<lambda>frequency.
             Inr (JObj [(''id'', JStr name), (''ir_zip_key'', ircode),
                        (''frequency'', frequency)])))
          items))"

definition parse_others_section :: "json \<Rightarrow> error + (json list \<times> json) list" where
  "parse_others_section section =
     ebind (py_iter section) (\<lambda>json_models.
     emap (\<lambda>json_model.
             ebind (other_buttons json_model) (\<lambda>buttons.
             ebind (py_getitem json_model ''source'') (\<lambda>source.
             Inr (buttons, source))))
          json_models)"

text \<open>The first block of \<^verbatim>\<open>load_brand_codes\<close>: the models of the \<^verbatim>\<open>others\<close> section.\<close>

definition others_models :: "json \<Rightarrow> error + json list" where
  "others_models data =
     ebind (py_in ''others'' data) (\<lambda>has_others.
     if has_others then
       ebind (py_getitem data ''others'') (\<lambda>section.
       ebind (parse_others_section section) (\<lambda>pairs.
       Inr (map (\<lambda>(other_buttons, source).
                   JObj [(''buttons'', JList other_buttons), (''source'', source)])
                pairs)))
     else Inr [])"

text \<open>
  One turn of the loop over \<^verbatim>\<open>tree["nodes"]\<close>: \<open>None\<close> is \<^verbatim>\<open>continue\<close>, \<open>Some m\<close> the
  model appended.
\<close>

definition tree_node :: "json \<Rightarrow> error + json option" where
  "tree_node json_model =
     ebind (py_in ''ir_zip_key'' json_model) (\<lambda>has_code.
     if \<not> has_code then Inr None
     else
       ebind (py_getitem json_model ''keyid'') (\<lambda>keyid.
       ebind (py_getitem json_model ''ir_zip_key'') (\<lambda>code.
       ebind (py_getitem json_model ''frequency'') (\<lambda>frequency.
       ebind (py_get json_model ''ir_zip_key_r'' JNull) (\<lambda>reverse_code.
       ebind (py_getitem json_model ''keysetids'') (\<lambda>keysetids.
       let button = [(''id'', keyid), (''ir_zip_key'', code), (''frequency'', frequency)];
           button = (if py_truthy reverse_code
                     then dict_set ''ir_zip_key_r'' reverse_code button else button)
       in Inr (Some (JObj [(''buttons'', JList [JObj button]),
                           (''keysetids'', keysetids)]))))))))"

fun tree_models :: "json list \<Rightarrow> error + json list" where
  "tree_models [] = Inr []"
| "tree_models (json_model # json_models) =
     ebind (tree_node json_model) (\<lambda>r.
     ebind (tree_models json_models) (\<lambda>ms.
     Inr (case r of None \<Rightarrow> ms | Some m \<Rightarrow> m # ms)))"

text \<open>
  \<^verbatim>\<open>load_brand_codes\<close>, from the parsed file on (\<^verbatim>\<open>json_filedata\<close>): reading the file
  and parsing its JSON are left out. The \<^verbatim>\<open>assert\<close> is executed, as Python does unless
  it is started with \<^verbatim>\<open>-O\<close>.
\<close>

definition load_brand_codes :: "json \<Rightarrow> error + json list" where
  "load_brand_codes json_filedata =
     ebind (py_getitem json_filedata ''data'') (\<lambda>data.
     ebind (others_models data) (\<lambda>models.
     ebind (py_getitem data ''tree'') (\<lambda>tree.
     ebind (py_in ''seceret_key'' tree) (\<lambda>has_key.
     if \<not> has_key then Inr models
     else
       ebind (py_getitem tree ''seceret_key'') (\<lambda>seceret_key.
       if seceret_key \<noteq> JNull then Inl AssertionError
       else
         ebind (py_getitem tree ''nodes'') (\<lambda>nodes.
         ebind (py_iter nodes) (\<lambda>json_models.
         ebind (tree_models json_models) (\<lambda>ms.
         Inr (models @ ms)))))))))"

section \<open>build\_patterns\<close>

text \<open>
  Modelled from the spec: the class \<^verbatim>\<open>Pattern\<close> (\<^verbatim>\<open>pattern.py\<close> is not among the
  sources) is the immutable record of what its constructor receives: the decrypted
  payload, the frequency, \<^verbatim>\<open>model_id\<close>, \<^verbatim>\<open>vendor_id\<close> and \<^verbatim>\<open>id\<close> (the button id).
\<close>

record 'c pattern =
  ir_code :: 'c
  frequency :: json
  model_id :: json
  vendor_id :: json
  button_id :: json

text \<open>\<^verbatim>\<open>button_name + '_r'\<close> when \<^verbatim>\<open>button_name is not None\<close>: only a string can be extended.\<close>

fun reverse_name :: "json \<Rightarrow> error + json" where
  "reverse_name JNull = Inr JNull"
| "reverse_name (JStr s) = Inr (JStr (s @ ''_r''))"
| "reverse_name v = Inl TypeError"

text \<open>
  The body of the loop of \<^verbatim>\<open>build_patterns\<close> for one model: \<open>model_patterns\<close> is what
  follows the test of the frequency. \<^verbatim>\<open>process_xiaomi_shit\<close> (\<^verbatim>\<open>crypt_utils.py\<close> is not
  among the sources) is the parameter \<open>decrypt\<close>. The first component of the result is
  what \<^verbatim>\<open>LOGGER.error\<close> received, the second the patterns appended, or the exception
  that leaves the function.
\<close>

definition model_patterns ::
  "(json \<Rightarrow> error + 'c) \<Rightarrow> json \<Rightarrow> json \<Rightarrow> error + 'c pattern list" where
  "model_patterns decrypt model freq =
     ebind (py_getitem model ''ir_zip_key'') (\<lambda>key.
     ebind (decrypt key) (\<lambda>code.
     ebind (py_get model ''keysetids'' JNull) (\<lambda>keysetids.
     ebind (py_get model ''_id'' keysetids) (\<lambda>mid.
     ebind (py_get model ''source'' (JStr ''mi'')) (\<lambda>vid.
     ebind (py_get model ''id'' JNull) (\<lambda>bid.
     let p = \<lparr>ir_code = code, frequency = freq, model_id = mid, vendor_id = vid,
              button_id = bid\<rparr>
     in
       ebind (py_in ''ir_zip_key_r'' model) (\<lambda>has_reverse.
       if \<not> has_reverse then Inr [p]
       else
         ebind (py_getitem model ''ir_zip_key_r'') (\<lambda>key_r.
         ebind (decrypt key_r) (\<lambda>code_r.
         ebind (reverse_name bid) (\<lambda>button_name.
         Inr [p, \<lparr>ir_code = code_r, frequency = freq, model_id = mid, vendor_id = vid,
                  button_id = button_name\<rparr>]))))))))))"

definition build_model ::
  "(json \<Rightarrow> error + 'c) \<Rightarrow> json \<Rightarrow> json list \<times> (error + 'c pattern list)" where
  "build_model decrypt model =
     (case py_getitem model ''frequency'' of
        Inl e \<Rightarrow> ([], Inl e)
      | Inr freq \<Rightarrow>
          if \<not> py_truthy freq then ([model], Inr [])
          else ([], model_patterns decrypt model freq))"

fun build_patterns ::
  "(json \<Rightarrow> error + 'c) \<Rightarrow> json list \<Rightarrow> json list \<times> (error + 'c pattern list)" where
  "build_patterns decrypt [] = ([], Inr [])"
| "build_patterns decrypt (model # models) =
     (case build_model decrypt model of
        (logged, Inl e) \<Rightarrow> (logged, Inl e)
      | (logged, Inr ps) \<Rightarrow>
          (case build_patterns decrypt models of
             (logged', r) \<Rightarrow> (logged @ logged', ebind r (\<lambda>ps'. Inr (ps @ ps')))))"

section \<open>load\_brand\_codes\_from\_dir\<close>

text \<open>
  A directory is the list of its \<^verbatim>\<open>*.json\<close> files in the order \<^verbatim>\<open>glob\<close> yields them,
  each with its stem and its parsed content. The function prints the file, then the number
  of its models, and the total at the end; it returns the dict alone.
\<close>

datatype out = PrintFile string | PrintLen nat | PrintTotal nat

fun dir_loop ::
  "(string \<times> json) list \<Rightarrow> nat \<Rightarrow> (string \<times> json list) list \<Rightarrow>
     out list \<times> (error + (string \<times> json list) list)" where
  "dir_loop [] total_n models = ([PrintTotal total_n], Inr models)"
| "dir_loop ((stem, json_file) # files) total_n models =
     (case load_brand_codes json_file of
        Inl e \<Rightarrow> ([PrintFile stem], Inl e)
      | Inr temp_models \<Rightarrow>
          (case dir_loop files (total_n + length temp_models)
                  (dict_set stem temp_models models) of
             (printed, r) \<Rightarrow> (PrintFile stem # PrintLen (length temp_models) # printed, r)))"

definition load_brand_codes_from_dir ::
  "(string \<times> json) list \<Rightarrow> out list \<times> (error + (string \<times> json list) list)" where
  "load_brand_codes_from_dir directory = dir_loop directory 0 []"

section \<open>The vocabulary of the statements\<close>

text \<open>
  Reading a field of a record of the dumps, where the statement has made sure it is there
  (\<open>JNull\<close> otherwise, as \<^verbatim>\<open>.get\<close> would give).
\<close>

definition field :: "json \<Rightarrow> string \<Rightarrow> json" where
  "field v k = (case v of JObj d \<Rightarrow> dict_get d k JNull | _ \<Rightarrow> JNull)"

definition has_field :: "json \<Rightarrow> string \<Rightarrow> bool" where
  "has_field v k = (case v of JObj d \<Rightarrow> map_of d k \<noteq> None | _ \<Rightarrow> False)"

definition is_dict :: "json \<Rightarrow> bool" where
  "is_dict v = (case v of JObj d \<Rightarrow> True | _ \<Rightarrow> False)"

text \<open>
  The two kinds of node the loop over \<^verbatim>\<open>tree["nodes"]\<close> gets through: a node for which
  \<^verbatim>\<open>"ir_zip_key" not in json_model\<close> holds, and a record with the four fields the loop
  reads without a default, \<^verbatim>\<open>ir_zip_key\<close>, \<^verbatim>\<open>keyid\<close>, \<^verbatim>\<open>frequency\<close> and
  \<^verbatim>\<open>keysetids\<close>.
\<close>

definition lacks_blob :: "json \<Rightarrow> bool" where
  "lacks_blob node = (py_in ''ir_zip_key'' node = Inr False)"

definition node_complete :: "json \<Rightarrow> bool" where
  "node_complete node = (has_field node ''ir_zip_key'' \<and> has_field node ''keyid'' \<and>
     has_field node ''frequency'' \<and> has_field node ''keysetids'')"

text \<open>
  The model of a node with a blob, as the amended C9 words it: the dict of the node's
  \<^verbatim>\<open>keysetids\<close> and of a single button; the button has the node's \<^verbatim>\<open>keyid\<close> as id, its
  code as blob and its frequency, and the reverse blob exactly when the node's
  \<^verbatim>\<open>ir_zip_key_r\<close> is present and not empty (for a string: not \<^verbatim>\<open>""\<close>). The
  frequency is a field of the button; the model has no frequency of its own.
\<close>

definition node_model :: "json \<Rightarrow> json" where
  "node_model node =
     JObj [(''buttons'', JList [JObj
             ([(''id'', field node ''keyid''), (''ir_zip_key'', field node ''ir_zip_key''),
               (''frequency'', field node ''frequency'')] @
              (if py_truthy (field node ''ir_zip_key_r'')
               then [(''ir_zip_key_r'', field node ''ir_zip_key_r'')] else []))]),
           (''keysetids'', field node ''keysetids'')]"

text \<open>
  An entry of \<^verbatim>\<open>others\<close> as the specification describes it: a button map \<^verbatim>\<open>key\<close>, a
  \<^verbatim>\<open>frequency\<close> and a \<^verbatim>\<open>source\<close>; and the one model made of it: a button per item
  of the map, each with the entry's frequency, and the entry's source.
\<close>

definition other_wf :: "json \<Rightarrow> bool" where
  "other_wf entry = (has_field entry ''key'' \<and> is_dict (field entry ''key'') \<and>
      has_field entry ''frequency'' \<and> has_field entry ''source'')"

definition other_model :: "json \<Rightarrow> json" where
  "other_model entry =
     JObj [(''buttons'', JList (map (\<lambda>(name, blob).
               JObj [(''id'', JStr name), (''ir_zip_key'', blob),
                     (''frequency'', field entry ''frequency'')])
             (case field entry ''key'' of JObj items \<Rightarrow> items | _ \<Rightarrow> []))),
           (''source'', field entry ''source'')]"

text \<open>Whether \<^verbatim>\<open>load_brand_codes\<close> returns for a document, and what.\<close>

definition loads :: "json \<Rightarrow> bool" where
  "loads json_file = (case load_brand_codes json_file of Inr ms \<Rightarrow> True | Inl e \<Rightarrow> False)"

definition models_of :: "json \<Rightarrow> json list" where
  "models_of json_file = (case load_brand_codes json_file of Inr ms \<Rightarrow> ms | Inl e \<Rightarrow> [])"

section \<open>Example documents and models\<close>

text \<open>
  The document of the docstring of \<^verbatim>\<open>load_brand_codes\<close>, shortened: a root node, a
  node with a code, a node with a code and a reverse code, and one entry of \<^verbatim>\<open>others\<close>
  with two keys.
\<close>

definition node_root :: json where
  "node_root = JObj [(''children_index'', JList [JInt 1, JInt 2]), (''frequency'', JInt 0),
     (''level'', JInt 0), (''parent_index'', JInt (- 1)), (''index'', JInt 0)]"

definition node_power :: json where
  "node_power = JObj [(''ir_zip_key'', JStr ''QJPm''),
     (''keysetids'', JList [JStr ''xm_1_199'', JStr ''xm_1_2425'']),
     (''children_index'', JList []), (''frequency'', JInt 37990), (''level'', JInt 1),
     (''parent_index'', JInt 0), (''index'', JInt 1), (''keyid'', JStr ''power'')]"

definition node_power_r :: json where
  "node_power_r = JObj [(''ir_zip_key_r'', JStr ''bbb''), (''ir_zip_key'', JStr ''aaa''),
     (''keysetids'', JList [JStr ''xm_1_4410'']),
     (''children_index'', JList []), (''frequency'', JInt 37000), (''level'', JInt 1),
     (''parent_index'', JInt 0), (''index'', JInt 2), (''keyid'', JStr ''power'')]"

definition other_3445 :: json where
  "other_3445 = JObj [(''_id'', JStr ''kk_1_64_3445''),
     (''key'', JObj [(''vol+'', JStr ''B1''), (''power'', JStr ''B2'')]),
     (''frequency'', JInt 38000), (''seceret_key'', JNull), (''source'', JStr ''kk'')]"

definition tree_64 :: "(string \<times> json) list" where
  "tree_64 = [(''root_index'', JInt 0), (''seceret_key'', JNull), (''brand'', JInt 64),
     (''nodes'', JList [node_root, node_power, node_power_r])]"

definition data_64 :: json where
  "data_64 = JObj [(''tree'', JObj tree_64), (''others'', JList [other_3445])]"

definition brand_64 :: json where
  "brand_64 = JObj [(''status'', JInt 0), (''data'', data_64)]"

text \<open>The models \<^verbatim>\<open>load_brand_codes\<close> returns for it: one for the entry, one per node with a code.\<close>

definition model_3445 :: json where
  "model_3445 = JObj [(''buttons'', JList
       [JObj [(''id'', JStr ''vol+''), (''ir_zip_key'', JStr ''B1''), (''frequency'', JInt 38000)],
        JObj [(''id'', JStr ''power''), (''ir_zip_key'', JStr ''B2''), (''frequency'', JInt 38000)]]),
     (''source'', JStr ''kk'')]"

definition model_power :: json where
  "model_power = JObj [(''buttons'', JList
       [JObj [(''id'', JStr ''power''), (''ir_zip_key'', JStr ''QJPm''),
              (''frequency'', JInt 37990)]]),
     (''keysetids'', JList [JStr ''xm_1_199'', JStr ''xm_1_2425''])]"

definition model_power_r :: json where
  "model_power_r = JObj [(''buttons'', JList
       [JObj [(''id'', JStr ''power''), (''ir_zip_key'', JStr ''aaa''),
              (''frequency'', JInt 37000), (''ir_zip_key_r'', JStr ''bbb'')]]),
     (''keysetids'', JList [JStr ''xm_1_4410''])]"

text \<open>
  Variants: the same \<^verbatim>\<open>others\<close> with no \<^verbatim>\<open>tree\<close>, with the empty tree \<^verbatim>\<open>{}\<close>, with
  a tree whose \<^verbatim>\<open>seceret_key\<close> is set, and a document with no \<^verbatim>\<open>data\<close>.
\<close>

definition data_no_tree :: json where
  "data_no_tree = JObj [(''others'', JList [other_3445])]"

definition brand_no_tree :: json where
  "brand_no_tree = JObj [(''status'', JInt 0), (''data'', data_no_tree)]"

definition data_empty_tree :: json where
  "data_empty_tree = JObj [(''tree'', JObj []), (''others'', JList [other_3445])]"

definition brand_empty_tree :: json where
  "brand_empty_tree = JObj [(''status'', JInt 0), (''data'', data_empty_tree)]"

definition tree_secret :: "(string \<times> json) list" where
  "tree_secret = [(''seceret_key'', JStr ''k1''), (''nodes'', JList [node_root, node_power])]"

definition data_secret :: json where
  "data_secret = JObj [(''tree'', JObj tree_secret), (''others'', JList [other_3445])]"

definition brand_secret :: json where
  "brand_secret = JObj [(''status'', JInt 0), (''data'', data_secret)]"

text \<open>A node with a blob and no \<^verbatim>\<open>keysetids\<close>, and a document whose tree has it.\<close>

definition node_bare :: json where
  "node_bare = JObj [(''ir_zip_key'', JStr ''ccc''), (''children_index'', JList []),
     (''frequency'', JInt 38000), (''level'', JInt 1), (''parent_index'', JInt 0),
     (''index'', JInt 2), (''keyid'', JStr ''power'')]"

definition tree_bare :: "(string \<times> json) list" where
  "tree_bare = [(''root_index'', JInt 0), (''seceret_key'', JNull), (''brand'', JInt 64),
     (''nodes'', JList [node_root, node_power, node_bare])]"

definition data_bare :: json where
  "data_bare = JObj [(''tree'', JObj tree_bare), (''others'', JList [other_3445])]"

definition brand_bare :: json where
  "brand_bare = JObj [(''status'', JInt 0), (''data'', data_bare)]"

definition no_data :: "(string \<times> json) list" where
  "no_data = [(''status'', JInt 0), (''encoding'', JStr ''UTF-8'')]"

text \<open>
  A stand-in for the decryption, to run \<^verbatim>\<open>build_patterns\<close> on examples: it fails on the
  blob \<^verbatim>\<open>"bad"\<close> and on what is not a string, and reverses any other string.
\<close>

definition decrypt_demo :: "json \<Rightarrow> error + string" where
  "decrypt_demo blob =
     (case blob of
        JStr s \<Rightarrow> if s = ''bad'' then Inl DecodeError else Inr (rev s)
      | _ \<Rightarrow> Inl TypeError)"

text \<open>Models of the form \<^verbatim>\<open>build_patterns\<close> reads: frequency and blobs at the top level.\<close>

definition flat_power :: "(string \<times> json) list" where
  "flat_power = [(''id'', JStr ''power''), (''ir_zip_key'', JStr ''abc''),
     (''frequency'', JInt 38000), (''keysetids'', JList [JStr ''xm_1_199''])]"

definition flat_power_r :: "(string \<times> json) list" where
  "flat_power_r = [(''id'', JStr ''power''), (''ir_zip_key'', JStr ''abc''),
     (''frequency'', JInt 37000), (''ir_zip_key_r'', JStr ''def'')]"





definition flat_bad :: "(string \<times> json) list" where
  "flat_bad = [(''id'', JStr ''mute''), (''ir_zip_key'', JStr ''bad''),
     (''frequency'', JInt 38000)]"

definition flat_bad_r :: "(string \<times> json) list" where
  "flat_bad_r = [(''id'', JStr ''power''), (''ir_zip_key'', JStr ''abc''),
     (''frequency'', JInt 37000), (''ir_zip_key_r'', JStr ''bad'')]"

definition pattern_power :: "string pattern" where
  "pattern_power = \<lparr>ir_code = ''cba'', frequency = JInt 38000,
     model_id = JList [JStr ''xm_1_199''], vendor_id = JStr ''mi'', button_id = JStr ''power''\<rparr>"

section \<open>Basic facts\<close>

lemma ebind_Inl [simp]: "ebind (Inl e) f = Inl e"
  by (simp add: ebind_def)

lemma ebind_Inr [simp]: "ebind (Inr x) f = f x"
  by (simp add: ebind_def)

lemma ebind_eq_Inr: "ebind m f = Inr y \<longleftrightarrow> (\<exists>x. m = Inr x \<and> f x = Inr y)"
  by (cases m) simp_all

lemma emap_all_Inr: "(\<And>x. x \<in> set xs \<Longrightarrow> f x = Inr (g x)) \<Longrightarrow> emap f xs = Inr (map g xs)"
  by (induction xs) simp_all

lemma getitem_in: "py_getitem v k = Inr x \<Longrightarrow> py_in k v = Inr True"
  by (cases v) (auto split: option.splits)

lemma dict_set_fresh: "k \<notin> fst ` set d \<Longrightarrow> dict_set k v d = d @ [(k, v)]"
  by (induction d) auto

subsection \<open>The shape of the models of load\_brand\_codes\<close>

lemma others_models_shape:
  assumes "others_models data = Inr ms" and "m \<in> set ms"
  shows "\<exists>bs src. m = JObj [(''buttons'', JList bs), (''source'', src)]"
  using assms
  by (auto simp: others_models_def ebind_eq_Inr split: if_splits)

lemma tree_node_shape:
  assumes "tree_node n = Inr (Some m)"
  shows "\<exists>b ks. m = JObj [(''buttons'', JList [JObj b]), (''keysetids'', ks)]"
  using assms
  by (auto simp: tree_node_def ebind_eq_Inr Let_def split: if_splits)

lemma tree_models_shape:
  "tree_models ns = Inr ms \<Longrightarrow> m \<in> set ms \<Longrightarrow>
   \<exists>b ks. m = JObj [(''buttons'', JList [JObj b]), (''keysetids'', ks)]"
proof (induction ns arbitrary: ms)
  case Nil
  then show ?case by simp
next
  case (Cons n ns)
  from Cons.prems(1) obtain r ms' where r: "tree_node n = Inr r"
    and ms': "tree_models ns = Inr ms'"
    and eq: "ms = (case r of None \<Rightarrow> ms' | Some m \<Rightarrow> m # ms')"
    by (auto simp: ebind_eq_Inr)
  show ?case
  proof (cases r)
    case None
    with eq Cons.prems(2) Cons.IH [OF ms'] show ?thesis by simp
  next
    case (Some m0)
    with eq Cons.prems(2) have "m = m0 \<or> m \<in> set ms'" by auto
    then show ?thesis
      using tree_node_shape r Some Cons.IH [OF ms'] by blast
  qed
qed

lemma load_brand_codes_parts:
  assumes "load_brand_codes doc = Inr ms"
  shows "\<exists>data os ns ts. others_models data = Inr os \<and> tree_models ns = Inr ts \<and> ms = os @ ts"
proof -
  from assms obtain data os tree has_key
    where os: "others_models data = Inr os"
      and rest: "(if \<not> has_key then Inr os
                 else ebind (py_getitem tree ''seceret_key'') (\<lambda>seceret_key.
                      if seceret_key \<noteq> JNull then Inl AssertionError
                      else ebind (py_getitem tree ''nodes'') (\<lambda>nodes.
                           ebind (py_iter nodes) (\<lambda>json_models.
                           ebind (tree_models json_models) (\<lambda>ts. Inr (os @ ts)))))) = Inr ms"
    unfolding load_brand_codes_def ebind_eq_Inr by blast
  show ?thesis
  proof (cases has_key)
    case False
    with rest have "ms = os @ []" by simp
    moreover have "tree_models [] = Inr []" by simp
    ultimately show ?thesis using os by blast
  next
    case True
    with rest obtain ns ts where "tree_models ns = Inr ts" and "ms = os @ ts"
      by (auto simp: ebind_eq_Inr split: if_splits)
    with os show ?thesis by blast
  qed
qed

lemma load_brand_codes_no_frequency:
  assumes "load_brand_codes doc = Inr ms" and "m \<in> set ms"
  shows "py_getitem m ''frequency'' = Inl (KeyError ''frequency'')"
proof -
  from load_brand_codes_parts [OF assms(1)] obtain data os ns ts
    where os: "others_models data = Inr os" and ts: "tree_models ns = Inr ts"
      and ms: "ms = os @ ts"
    by blast
  from assms(2) ms have "m \<in> set os \<or> m \<in> set ts" by simp
  then show ?thesis
  proof
    assume "m \<in> set os"
    from others_models_shape [OF os this] show ?thesis by auto
  next
    assume "m \<in> set ts"
    from tree_models_shape [OF ts this] show ?thesis by auto
  qed
qed

lemma load_brand_codes_prefix:
  assumes "py_getitem doc ''data'' = Inr data" and "others_models data = Inr os"
    and "load_brand_codes doc = Inr ms"
  shows "take (length os) ms = os"
  using assms
  by (auto simp: load_brand_codes_def ebind_eq_Inr split: if_splits)

subsection \<open>Well-formed entries and nodes\<close>

lemma other_buttons_wf:
  assumes "entry = JObj e" and "map_of e ''key'' = Some (JObj items)"
    and "map_of e ''frequency'' = Some freq"
  shows "other_buttons entry =
     Inr (map (\<lambda>(name, blob).
                 JObj [(''id'', JStr name), (''ir_zip_key'', blob), (''frequency'', freq)])
              items)"
proof -
  have "emap (\<lambda>(name, ircode).
             ebind (py_getitem entry ''frequency'') (\<lambda>frequency.
             Inr (JObj [(''id'', JStr name), (''ir_zip_key'', ircode),
                        (''frequency'', frequency)]))) items
     = Inr (map (\<lambda>(name, blob).
                   JObj [(''id'', JStr name), (''ir_zip_key'', blob), (''frequency'', freq)])
                items)"
    by (rule emap_all_Inr) (auto simp: assms)
  then show ?thesis by (simp add: other_buttons_def assms)
qed

lemma others_models_wf:
  assumes "py_getitem data ''others'' = Inr (JList entries)"
    and "\<forall>entry \<in> set entries. other_wf entry"
  shows "others_models data = Inr (map other_model entries)"
proof -
  from assms(1) have inn: "py_in ''others'' data = Inr True"
    by (rule getitem_in)
  have "emap (\<lambda>json_model.
             ebind (other_buttons json_model) (\<lambda>buttons.
             ebind (py_getitem json_model ''source'') (\<lambda>source.
             Inr (buttons, source)))) entries
      = Inr (map (\<lambda>entry. (map (\<lambda>(name, blob).
               JObj [(''id'', JStr name), (''ir_zip_key'', blob),
                     (''frequency'', field entry ''frequency'')])
             (case field entry ''key'' of JObj items \<Rightarrow> items | _ \<Rightarrow> []),
             field entry ''source'')) entries)"
  proof (rule emap_all_Inr)
    fix entry assume "entry \<in> set entries"
    with assms(2) have wf: "other_wf entry" by blast
    then obtain e items freq src where e: "entry = JObj e"
      and k: "map_of e ''key'' = Some (JObj items)"
      and f: "map_of e ''frequency'' = Some freq"
      and s: "map_of e ''source'' = Some src"
      by (cases entry)
         (auto simp: other_wf_def has_field_def field_def is_dict_def dict_get_def
               split: json.splits option.splits)
    from other_buttons_wf [OF e k f] e k f s
    show "ebind (other_buttons entry) (\<lambda>buttons.
             ebind (py_getitem entry ''source'') (\<lambda>source.
             Inr (buttons, source))) = (Inr (map (\<lambda>(name, blob).
               JObj [(''id'', JStr name), (''ir_zip_key'', blob),
                     (''frequency'', field entry ''frequency'')])
             (case field entry ''key'' of JObj items \<Rightarrow> items | _ \<Rightarrow> []),
             field entry ''source'') :: error + json list \<times> json)"
      by (simp add: field_def dict_get_def)
  qed
  then show ?thesis
    using assms(1) inn
    by (simp add: others_models_def parse_others_section_def other_model_def comp_def)
qed

lemma tree_node_ok:
  assumes "lacks_blob node \<or> node_complete node"
  shows "tree_node node =
           Inr (if has_field node ''ir_zip_key'' then Some (node_model node) else None)"
  using assms
proof
  assume l: "lacks_blob node"
  then have "\<not> has_field node ''ir_zip_key''"
    by (cases node) (auto simp: lacks_blob_def has_field_def)
  with l show ?thesis by (simp add: tree_node_def lacks_blob_def)
next
  assume c: "node_complete node"
  then obtain n where n: "node = JObj n"
    by (cases node) (auto simp: node_complete_def has_field_def)
  with c obtain code keyid freq ks where
    "map_of n ''ir_zip_key'' = Some code"
    "map_of n ''keyid'' = Some keyid" "map_of n ''frequency'' = Some freq"
    "map_of n ''keysetids'' = Some ks"
    by (auto simp: node_complete_def has_field_def)
  then show ?thesis
    by (cases "map_of n ''ir_zip_key_r''")
       (simp_all add: n tree_node_def has_field_def node_model_def field_def dict_get_def)
qed

lemma tree_models_ok:
  "\<forall>node \<in> set nodes. lacks_blob node \<or> node_complete node \<Longrightarrow>
   tree_models nodes =
     Inr (map node_model (filter (\<lambda>node. has_field node ''ir_zip_key'') nodes))"
  by (induction nodes) (simp_all add: tree_node_ok)

subsection \<open>The loop over a directory\<close>

lemma loads_Inr: "loads d \<Longrightarrow> load_brand_codes d = Inr (models_of d)"
  by (auto simp: loads_def models_of_def split: sum.splits)

lemma dir_loop_ok:
  "\<forall>f \<in> set files. loads (snd f) \<Longrightarrow> distinct (map fst files) \<Longrightarrow>
   fst ` set files \<inter> fst ` set models = {} \<Longrightarrow>
   dir_loop files total_n models =
     (concat (map (\<lambda>f. [PrintFile (fst f), PrintLen (length (models_of (snd f)))]) files) @
        [PrintTotal (total_n + sum_list (map (\<lambda>f. length (models_of (snd f))) files))],
      Inr (models @ map (\<lambda>f. (fst f, models_of (snd f))) files))"
proof (induction files arbitrary: total_n models)
  case Nil
  then show ?case by simp
next
  case (Cons f files)
  obtain stem d where f: "f = (stem, d)" by (cases f)
  from Cons.prems(1) f have ld: "load_brand_codes d = Inr (models_of d)"
    by (simp add: loads_Inr)
  from Cons.prems(3) f have fresh: "stem \<notin> fst ` set models" by auto
  have disj: "fst ` set files \<inter> fst ` set (models @ [(stem, models_of d)]) = {}"
    using Cons.prems(2,3) f by auto
  from Cons.prems
  have IH: "dir_loop files (total_n + length (models_of d)) (models @ [(stem, models_of d)]) =
     (concat (map (\<lambda>f. [PrintFile (fst f), PrintLen (length (models_of (snd f)))]) files) @
        [PrintTotal (total_n + length (models_of d) +
           sum_list (map (\<lambda>f. length (models_of (snd f))) files))],
      Inr ((models @ [(stem, models_of d)]) @ map (\<lambda>f. (fst f, models_of (snd f))) files))"
    by (intro Cons.IH disj) simp_all
  show ?case
    by (simp add: f ld dict_set_fresh [OF fresh] IH add.assoc)
qed

lemma dir_loop_fails:
  "\<forall>f \<in> set pre. loads (snd f) \<Longrightarrow> load_brand_codes d = Inl e \<Longrightarrow>
   dir_loop (pre @ (stem, d) # post) total_n models =
     (concat (map (\<lambda>f. [PrintFile (fst f), PrintLen (length (models_of (snd f)))]) pre) @
        [PrintFile stem], Inl e)"
proof (induction pre arbitrary: total_n models)
  case Nil
  then show ?case by simp
next
  case (Cons f pre)
  obtain s x where f: "f = (s, x)" by (cases f)
  from Cons.prems(1) f have ld: "load_brand_codes x = Inr (models_of x)"
    by (simp add: loads_Inr)
  from Cons.prems
  have "dir_loop (pre @ (stem, d) # post) (total_n + length (models_of x))
        (dict_set s (models_of x) models) =
     (concat (map (\<lambda>f. [PrintFile (fst f), PrintLen (length (models_of (snd f)))]) pre) @
        [PrintFile stem], Inl e)"
    by (intro Cons.IH) simp_all
  then show ?case by (simp add: f ld)
qed

subsection \<open>The loop of build\_patterns\<close>

lemma build_patterns_append:
  "build_patterns decrypt (xs @ ys) =
     (case build_patterns decrypt xs of
        (logged, Inl e) \<Rightarrow> (logged, Inl e)
      | (logged, Inr ps) \<Rightarrow>
          (case build_patterns decrypt ys of
             (logged', r) \<Rightarrow> (logged @ logged', ebind r (\<lambda>ps'. Inr (ps @ ps')))))"
proof (induction xs)
  case Nil
  show ?case by (cases "build_patterns decrypt ys"; cases "snd (build_patterns decrypt ys)") auto
next
  case (Cons x xs)
  show ?case
    by (cases "build_model decrypt x"; cases "snd (build_model decrypt x)";
        cases "build_patterns decrypt xs"; cases "snd (build_patterns decrypt xs)";
        cases "build_patterns decrypt ys"; cases "snd (build_patterns decrypt ys)")
       (auto simp: Cons.IH)
qed



lemma model_patterns_fails:
  assumes "py_getitem model ''ir_zip_key'' = Inr key"
    and "decrypt key = Inl e \<or>
         (decrypt key = Inr code \<and> py_getitem model ''ir_zip_key_r'' = Inr key_r \<and>
          decrypt key_r = Inl e)"
  shows "model_patterns decrypt model freq = Inl e"
proof -
  from assms(1) obtain m where m: "model = JObj m" by (cases model) auto
  from assms(2) show ?thesis
  proof
    assume "decrypt key = Inl e"
    with assms(1) show ?thesis by (simp add: model_patterns_def)
  next
    assume "decrypt key = Inr code \<and> py_getitem model ''ir_zip_key_r'' = Inr key_r \<and>
          decrypt key_r = Inl e"
    with assms(1) getitem_in [of model "''ir_zip_key_r''" key_r] show ?thesis
      by (simp add: model_patterns_def m)
  qed
qed

subsection \<open>The examples, evaluated\<close>

lemma others_models_data_64: "others_models data_64 = Inr [model_3445]"
  by (simp add: others_models_def parse_others_section_def other_buttons_def other_3445_def
      model_3445_def data_64_def)

lemma others_models_no_tree: "others_models data_no_tree = Inr [model_3445]"
  by (simp add: others_models_def parse_others_section_def other_buttons_def other_3445_def
      model_3445_def data_no_tree_def)

lemma others_models_empty_tree: "others_models data_empty_tree = Inr [model_3445]"
  by (simp add: others_models_def parse_others_section_def other_buttons_def other_3445_def
      model_3445_def data_empty_tree_def)

lemma others_models_secret: "others_models data_secret = Inr [model_3445]"
  by (simp add: others_models_def parse_others_section_def other_buttons_def other_3445_def
      model_3445_def data_secret_def)

lemma others_models_bare: "others_models data_bare = Inr [model_3445]"
  by (simp add: others_models_def parse_others_section_def other_buttons_def other_3445_def
      model_3445_def data_bare_def)

lemma tree_models_64:
  "tree_models [node_root, node_power, node_power_r] = Inr [model_power, model_power_r]"
  by (simp add: tree_node_def node_root_def node_power_def node_power_r_def model_power_def
      model_power_r_def dict_get_def)

lemma brand_64_loads:
  "load_brand_codes brand_64 = Inr [model_3445, model_power, model_power_r]"
  by (simp add: load_brand_codes_def brand_64_def others_models_data_64)
     (simp add: data_64_def tree_64_def tree_models_64 del: tree_models.simps)

lemma brand_empty_tree_loads: "load_brand_codes brand_empty_tree = Inr [model_3445]"
  by (simp add: load_brand_codes_def brand_empty_tree_def others_models_empty_tree)
     (simp add: data_empty_tree_def)

lemma build_patterns_flat_power:
  "build_patterns decrypt_demo [JObj flat_power] = ([], Inr [pattern_power])"
  by (simp add: build_model_def model_patterns_def flat_power_def decrypt_demo_def
      dict_get_def pattern_power_def)

section \<open>The models of load\_brand\_codes as input of build\_patterns\<close>

text \<open>
  C1. The docstring of \<^verbatim>\<open>build_patterns\<close> takes the models returned by
  \<^verbatim>\<open>load_brand_codes\<close>. Every such model is a dict with the keys \<^verbatim>\<open>buttons\<close> and
  \<^verbatim>\<open>source\<close>, or \<^verbatim>\<open>buttons\<close> and \<^verbatim>\<open>keysetids\<close>; \<^verbatim>\<open>build_patterns\<close> reads
  \<^verbatim>\<open>model["frequency"]\<close> first. So on every non-empty list that \<^verbatim>\<open>load_brand_codes\<close>
  returns, whatever the decryption does, \<^verbatim>\<open>build_patterns\<close> raises \<^verbatim>\<open>KeyError\<close> at the
  first model and yields no pattern: the claim that it does not fail is violated.
\<close>

theorem build_patterns_rejects_loaded_models:
  assumes "load_brand_codes doc = Inr models" and "models \<noteq> []"
  shows "build_patterns decrypt models = ([], Inl (KeyError ''frequency''))"
proof -
  from assms(2) obtain m ms where models: "models = m # ms" by (cases models) auto
  with assms(1) have "py_getitem m ''frequency'' = Inl (KeyError ''frequency'')"
    by (intro load_brand_codes_no_frequency [of doc models]) simp_all
  then show ?thesis by (simp add: models build_model_def)
qed

theorem build_patterns_rejects_loaded_models_witness:
  "load_brand_codes brand_64 = Inr [model_3445, model_power, model_power_r] \<and>
   [model_3445, model_power, model_power_r] \<noteq> [] \<and>
   build_patterns decrypt_demo [model_3445, model_power, model_power_r] =
     ([], Inl (KeyError ''frequency''))"
proof -
  have ne: "[model_3445, model_power, model_power_r] \<noteq> []" by simp
  from build_patterns_rejects_loaded_models [OF brand_64_loads ne, of decrypt_demo]
  show ?thesis using brand_64_loads by simp
qed

section \<open>load\_brand\_codes\<close>

subsection \<open>A document with no tree\<close>

text \<open>
  C2, as stated, fails: \<^verbatim>\<open>load_brand_codes\<close> reads \<^verbatim>\<open>json_filedata["data"]["tree"]\<close>
  with no guard. For the data \<^verbatim>\<open>{"others": [...]}\<close> the others section gives one
  model, and the function then raises \<^verbatim>\<open>KeyError('tree')\<close> instead of returning it.
\<close>

theorem load_brand_codes_absent_tree_counterexample:
  "others_models data_no_tree = Inr [model_3445] \<and>
   load_brand_codes brand_no_tree = Inl (KeyError ''tree'')"
  by (simp add: load_brand_codes_def brand_no_tree_def others_models_no_tree)
     (simp add: data_no_tree_def)

text \<open>
  C2, amended: what the code treats as the empty tree is a \<^verbatim>\<open>tree\<close> entry that is present
  and does not contain \<^verbatim>\<open>seceret_key\<close>. For every such document \<^verbatim>\<open>load_brand_codes\<close>
  ends exactly as its others block does: it returns the models of \<^verbatim>\<open>others\<close> (none when
  there is no such section), and raises only what that block raised.
\<close>

theorem load_brand_codes_empty_tree_returns_others:
  assumes "py_getitem doc ''data'' = Inr data"
    and "py_getitem data ''tree'' = Inr tree"
    and "py_in ''seceret_key'' tree = Inr False"
  shows "load_brand_codes doc = others_models data"
  using assms by (cases "others_models data") (simp_all add: load_brand_codes_def)

theorem load_brand_codes_empty_tree_returns_others_witness:
  "py_getitem brand_empty_tree ''data'' = Inr data_empty_tree \<and>
   py_getitem data_empty_tree ''tree'' = Inr (JObj []) \<and>
   py_in ''seceret_key'' (JObj []) = Inr False \<and>
   load_brand_codes brand_empty_tree = Inr [model_3445]"
proof -
  have a: "py_getitem brand_empty_tree ''data'' = Inr data_empty_tree"
    by (simp add: brand_empty_tree_def)
  have b: "py_getitem data_empty_tree ''tree'' = Inr (JObj [])"
    by (simp add: data_empty_tree_def)
  have c: "py_in ''seceret_key'' (JObj []) = Inr False" by simp
  from load_brand_codes_empty_tree_returns_others [OF a b c] a b c show ?thesis
    by (simp add: others_models_empty_tree)
qed

subsection \<open>The others section\<close>

text \<open>
  C5, as stated, fails: an entry of \<^verbatim>\<open>others\<close> gives one model, not one per key. For the
  entry with the keys \<^verbatim>\<open>vol+\<close> and \<^verbatim>\<open>power\<close> \<^verbatim>\<open>load_brand_codes\<close> returns a single
  model whose \<^verbatim>\<open>buttons\<close> list has two elements, and the \<^verbatim>\<open>_id\<close> of the entry is not in it.
\<close>

theorem load_brand_codes_others_counterexample:
  "load_brand_codes brand_empty_tree = Inr [model_3445] \<and>
   length [model_3445] = 1 \<and>
   py_getitem model_3445 ''buttons'' =
     Inr (JList [JObj [(''id'', JStr ''vol+''), (''ir_zip_key'', JStr ''B1''),
                       (''frequency'', JInt 38000)],
                 JObj [(''id'', JStr ''power''), (''ir_zip_key'', JStr ''B2''),
                       (''frequency'', JInt 38000)]]) \<and>
   py_getitem model_3445 ''_id'' = Inl (KeyError ''_id'')"
  by (simp add: brand_empty_tree_loads) (simp add: model_3445_def)

text \<open>
  C5, amended: for a section \<^verbatim>\<open>others\<close> whose entries have a button map, a frequency
  and a source, \<^verbatim>\<open>load_brand_codes\<close> makes one model per entry, in order: its
  \<^verbatim>\<open>buttons\<close> are one button per (name, blob) pair of the map, each with the name as id,
  the blob and the entry's frequency, and its \<^verbatim>\<open>source\<close> is the entry's. These models
  are the first ones of whatever list the function returns.
\<close>

theorem load_brand_codes_one_model_per_other:
  assumes "py_getitem doc ''data'' = Inr data"
    and "py_getitem data ''others'' = Inr (JList entries)"
    and "\<forall>entry \<in> set entries. other_wf entry"
  shows "others_models data = Inr (map other_model entries) \<and>
         (\<forall>ms. load_brand_codes doc = Inr ms \<longrightarrow>
               take (length entries) ms = map other_model entries)"
proof -
  have os: "others_models data = Inr (map other_model entries)"
    using assms(2,3) by (rule others_models_wf)
  moreover have "take (length entries) ms = map other_model entries"
    if "load_brand_codes doc = Inr ms" for ms
    using load_brand_codes_prefix [OF assms(1) os that] by simp
  ultimately show ?thesis by blast
qed

theorem load_brand_codes_one_model_per_other_witness:
  "other_wf other_3445 \<and> other_model other_3445 = model_3445 \<and>
   others_models data_64 = Inr [model_3445] \<and>
   load_brand_codes brand_64 = Inr [model_3445, model_power, model_power_r] \<and>
   take (length [other_3445]) [model_3445, model_power, model_power_r] = [model_3445]"
proof -
  have a: "py_getitem brand_64 ''data'' = Inr data_64"
    by (simp add: brand_64_def)
  have b: "py_getitem data_64 ''others'' = Inr (JList [other_3445])"
    by (simp add: data_64_def)
  have wf: "other_wf other_3445"
    by (simp add: other_wf_def has_field_def is_dict_def field_def dict_get_def other_3445_def)
  then have c: "\<forall>entry \<in> set [other_3445]. other_wf entry" by simp
  have m: "other_model other_3445 = model_3445"
    by (simp add: other_model_def field_def dict_get_def other_3445_def model_3445_def)
  from load_brand_codes_one_model_per_other [OF a b c] wf m brand_64_loads
  show ?thesis by simp
qed

subsection \<open>The nodes of the tree\<close>

text \<open>
  C9, as stated, fails. A node with a blob need not have \<^verbatim>\<open>keysetids\<close>, and for the
  node with \<^verbatim>\<open>ir_zip_key\<close>, \<^verbatim>\<open>keyid\<close> and \<^verbatim>\<open>frequency\<close> only,
  \<^verbatim>\<open>json_model['keysetids']\<close> raises \<^verbatim>\<open>KeyError\<close>: no model is emitted for it and the
  whole document gives no result. And a model that is emitted does not have the node's
  frequency as its own: the frequency is inside its button.
\<close>

theorem load_brand_codes_blob_node_counterexample:
  "has_field node_bare ''ir_zip_key'' \<and> \<not> has_field node_bare ''keysetids'' \<and>
   load_brand_codes brand_bare = Inl (KeyError ''keysetids'') \<and>
   load_brand_codes brand_64 = Inr [model_3445, model_power, model_power_r] \<and>
   py_getitem model_power ''frequency'' = Inl (KeyError ''frequency'')"
proof -
  have "load_brand_codes brand_bare = Inl (KeyError ''keysetids'')"
    by (simp add: load_brand_codes_def brand_bare_def others_models_bare)
       (simp add: data_bare_def tree_bare_def tree_node_def node_root_def node_power_def
          node_bare_def dict_get_def)
  moreover have "has_field node_bare ''ir_zip_key'' \<and> \<not> has_field node_bare ''keysetids''"
    by (simp add: has_field_def node_bare_def)
  moreover have "py_getitem model_power ''frequency'' = Inl (KeyError ''frequency'')"
    by (simp add: model_power_def)
  ultimately show ?thesis using brand_64_loads by simp
qed

text \<open>
  C9, amended. When the others block has run, \<^verbatim>\<open>seceret_key\<close> is \<^verbatim>\<open>null\<close> and every
  element of \<^verbatim>\<open>nodes\<close> either lacks the blob field or is a record with \<^verbatim>\<open>ir_zip_key\<close>,
  \<^verbatim>\<open>keyid\<close>, \<^verbatim>\<open>frequency\<close> and \<^verbatim>\<open>keysetids\<close>, \<^verbatim>\<open>load_brand_codes\<close> skips every node
  without the blob field and appends, for each node with one and in the order of the
  list, exactly one model (\<open>node_model\<close>): its \<^verbatim>\<open>keysetids\<close> is the node's, and its
  single button has the node's \<^verbatim>\<open>keyid\<close> as id, the node's code as blob, the node's
  frequency, and the reverse blob exactly when the node's \<^verbatim>\<open>ir_zip_key_r\<close> is present
  and not empty.
\<close>

theorem load_brand_codes_tree_nodes:
  assumes "py_getitem doc ''data'' = Inr data"
    and "others_models data = Inr models"
    and "py_getitem data ''tree'' = Inr (JObj tree)"
    and "map_of tree ''seceret_key'' = Some JNull"
    and "map_of tree ''nodes'' = Some (JList nodes)"
    and "\<forall>node \<in> set nodes. lacks_blob node \<or> node_complete node"
  shows "load_brand_codes doc =
           Inr (models @
                map node_model (filter (\<lambda>node. has_field node ''ir_zip_key'') nodes))"
  using assms by (simp add: load_brand_codes_def tree_models_ok)

theorem load_brand_codes_tree_nodes_witness:
  "lacks_blob node_root \<and> node_complete node_power \<and> node_complete node_power_r \<and>
   \<not> has_field node_root ''ir_zip_key'' \<and>
   node_model node_power = model_power \<and> node_model node_power_r = model_power_r \<and>
   load_brand_codes brand_64 = Inr [model_3445, model_power, model_power_r]"
proof -
  have a: "py_getitem brand_64 ''data'' = Inr data_64"
    by (simp add: brand_64_def)
  have b: "py_getitem data_64 ''tree'' = Inr (JObj tree_64)"
    by (simp add: data_64_def)
  have c: "map_of tree_64 ''seceret_key'' = Some JNull"
    by (simp add: tree_64_def)
  have d: "map_of tree_64 ''nodes'' = Some (JList [node_root, node_power, node_power_r])"
    by (simp add: tree_64_def)
  have wf: "lacks_blob node_root \<and> node_complete node_power \<and> node_complete node_power_r"
    by (simp add: lacks_blob_def node_complete_def has_field_def node_root_def node_power_def
        node_power_r_def)
  then have e: "\<forall>node \<in> set [node_root, node_power, node_power_r].
                  lacks_blob node \<or> node_complete node"
    by simp
  have f: "\<not> has_field node_root ''ir_zip_key'' \<and> has_field node_power ''ir_zip_key'' \<and>
           has_field node_power_r ''ir_zip_key''"
    by (simp add: has_field_def node_root_def node_power_def node_power_r_def)
  have g: "node_model node_power = model_power \<and> node_model node_power_r = model_power_r"
    by (simp add: node_model_def field_def dict_get_def node_power_def node_power_r_def
        model_power_def model_power_r_def)
  from load_brand_codes_tree_nodes [OF a others_models_data_64 b c d e] wf f g
  show ?thesis by simp
qed

subsection \<open>A tree with a secret key\<close>

text \<open>
  C10. When the others block has run and the tree is a record whose \<^verbatim>\<open>seceret_key\<close> is
  not \<^verbatim>\<open>null\<close>, the assertion of \<^verbatim>\<open>load_brand_codes\<close> fails: the function raises
  \<^verbatim>\<open>AssertionError\<close> and returns nothing, neither the models parsed so far nor those of
  the nodes.
\<close>

theorem load_brand_codes_seceret_key_asserts:
  assumes "py_getitem doc ''data'' = Inr data"
    and "others_models data = Inr models"
    and "py_getitem data ''tree'' = Inr (JObj tree)"
    and "map_of tree ''seceret_key'' = Some seceret_key"
    and "seceret_key \<noteq> JNull"
  shows "load_brand_codes doc = Inl AssertionError"
  using assms by (simp add: load_brand_codes_def)

theorem load_brand_codes_seceret_key_asserts_witness:
  "others_models data_secret = Inr [model_3445] \<and>
   map_of tree_secret ''seceret_key'' = Some (JStr ''k1'') \<and> JStr ''k1'' \<noteq> JNull \<and>
   load_brand_codes brand_secret = Inl AssertionError"
proof -
  have a: "py_getitem brand_secret ''data'' = Inr data_secret"
    by (simp add: brand_secret_def)
  have b: "py_getitem data_secret ''tree'' = Inr (JObj tree_secret)"
    by (simp add: data_secret_def)
  have c: "map_of tree_secret ''seceret_key'' = Some (JStr ''k1'')"
    by (simp add: tree_secret_def)
  have d: "JStr ''k1'' \<noteq> JNull" by simp
  from load_brand_codes_seceret_key_asserts [OF a others_models_secret b c d] c
  show ?thesis by (simp add: others_models_secret)
qed

section \<open>build\_patterns\<close>

subsection \<open>A blob that does not decrypt\<close>

text \<open>
  C3, as stated, fails: \<^verbatim>\<open>build_patterns\<close> catches nothing. With a decryption that fails
  on the blob \<^verbatim>\<open>"bad"\<close>, the batch of a model with that primary blob followed by a good
  model yields no pattern at all, the good model's included; and a model with a good
  primary blob and the reverse blob \<^verbatim>\<open>"bad"\<close> yields no pattern either, so its primary
  pattern is not in a returned list.
\<close>

theorem build_patterns_decrypt_failure_counterexample:
  "build_patterns decrypt_demo [JObj flat_power] = ([], Inr [pattern_power]) \<and>
   build_patterns decrypt_demo [JObj flat_bad, JObj flat_power] = ([], Inl DecodeError) \<and>
   build_patterns decrypt_demo [JObj flat_bad_r] = ([], Inl DecodeError)"
  by (simp add: build_model_def model_patterns_def flat_bad_def flat_bad_r_def flat_power_def
      decrypt_demo_def dict_get_def pattern_power_def)

text \<open>
  C3, amended: when the models before it have been processed, a model with a usable
  frequency whose primary blob fails to decrypt, or whose primary blob decrypts and whose
  reverse blob fails to, ends \<^verbatim>\<open>build_patterns\<close>: the error of the decryption leaves the
  function, and no pattern is returned for any model of the batch, whatever follows.
\<close>

theorem build_patterns_decrypt_failure_aborts:
  assumes "build_patterns decrypt pre = (logged, Inr ps)"
    and "py_getitem model ''frequency'' = Inr freq" and "py_truthy freq"
    and "py_getitem model ''ir_zip_key'' = Inr key"
    and "decrypt key = Inl e \<or>
         (decrypt key = Inr code \<and> py_getitem model ''ir_zip_key_r'' = Inr key_r \<and>
          decrypt key_r = Inl e)"
  shows "build_patterns decrypt (pre @ model # post) = (logged, Inl e)"
proof -
  from model_patterns_fails [OF assms(4,5), of freq] assms(2,3)
  have "build_model decrypt model = ([], Inl e)"
    by (simp add: build_model_def)
  then have "build_patterns decrypt (model # post) = ([], Inl e)" by simp
  with assms(1) show ?thesis by (simp add: build_patterns_append)
qed

theorem build_patterns_decrypt_failure_aborts_witness:
  "decrypt_demo (JStr ''bad'') = Inl DecodeError \<and>
   decrypt_demo (JStr ''abc'') = Inr ''cba'' \<and>
   build_patterns decrypt_demo [JObj flat_power, JObj flat_bad, JObj flat_power_r] =
     ([], Inl DecodeError) \<and>
   build_patterns decrypt_demo [JObj flat_power, JObj flat_bad_r, JObj flat_power_r] =
     ([], Inl DecodeError)"
proof -
  have bad: "decrypt_demo (JStr ''bad'') = Inl DecodeError"
    and good: "decrypt_demo (JStr ''abc'') = Inr ''cba''"
    by (simp_all add: decrypt_demo_def)
  have f1: "py_getitem (JObj flat_bad) ''frequency'' = Inr (JInt 38000)"
    and k1: "py_getitem (JObj flat_bad) ''ir_zip_key'' = Inr (JStr ''bad'')"
    by (simp_all add: flat_bad_def)
  have f2: "py_getitem (JObj flat_bad_r) ''frequency'' = Inr (JInt 37000)"
    and k2: "py_getitem (JObj flat_bad_r) ''ir_zip_key'' = Inr (JStr ''abc'')"
    and r2: "py_getitem (JObj flat_bad_r) ''ir_zip_key_r'' = Inr (JStr ''bad'')"
    by (simp_all add: flat_bad_r_def)
  have t1: "py_truthy (JInt 38000)" and t2: "py_truthy (JInt 37000)" by simp_all
  have d1: "decrypt_demo (JStr ''bad'') = Inl DecodeError \<or>
      (decrypt_demo (JStr ''bad'') = Inr [] \<and>
       py_getitem (JObj flat_bad) ''ir_zip_key_r'' = Inr JNull \<and>
       decrypt_demo JNull = Inl DecodeError)"
    using bad by simp
  have d2: "decrypt_demo (JStr ''abc'') = Inl DecodeError \<or>
      (decrypt_demo (JStr ''abc'') = Inr ''cba'' \<and>
       py_getitem (JObj flat_bad_r) ''ir_zip_key_r'' = Inr (JStr ''bad'') \<and>
       decrypt_demo (JStr ''bad'') = Inl DecodeError)"
    using bad good r2 by simp
  from build_patterns_decrypt_failure_aborts
         [OF build_patterns_flat_power f1 t1 k1 d1, of "[JObj flat_power_r]"]
       build_patterns_decrypt_failure_aborts
         [OF build_patterns_flat_power f2 t2 k2 d2, of "[JObj flat_power_r]"]
       bad good
  show ?thesis by simp
qed

subsection \<open>A frequency that is not positive\<close>




subsection \<open>A code and its reverse code\<close>




section \<open>load\_brand\_codes\_from\_dir\<close>

subsection \<open>A document with no data\<close>

text \<open>
  C6, as stated, fails: \<^verbatim>\<open>load_brand_codes\<close> raises \<^verbatim>\<open>KeyError('data')\<close> for a document
  with no \<^verbatim>\<open>data\<close>, and \<^verbatim>\<open>load_brand_codes_from_dir\<close> does not catch it. With such a
  document first in the directory, the function prints its name and ends with that error:
  the next document is not read and no dict is returned.
\<close>

theorem load_brand_codes_from_dir_missing_data_counterexample:
  "load_brand_codes (JObj no_data) = Inl (KeyError ''data'') \<and>
   load_brand_codes_from_dir [(''1'', JObj no_data), (''64'', brand_64)] =
     ([PrintFile ''1''], Inl (KeyError ''data''))"
  by (simp add: load_brand_codes_from_dir_def load_brand_codes_def no_data_def)

text \<open>
  C6, amended: for every document with no top-level \<^verbatim>\<open>data\<close> key,
  \<^verbatim>\<open>load_brand_codes\<close> fails at once with \<^verbatim>\<open>KeyError('data')\<close>, and the batch ends there:
  when the documents before it load, \<^verbatim>\<open>load_brand_codes_from_dir\<close> prints them and the
  name of the document, and that error leaves the function, whatever documents follow.
\<close>

theorem load_brand_codes_from_dir_missing_data_aborts:
  assumes "map_of doc ''data'' = None" and "\<forall>f \<in> set pre. loads (snd f)"
  shows "load_brand_codes (JObj doc) = Inl (KeyError ''data'') \<and>
         load_brand_codes_from_dir (pre @ (stem, JObj doc) # post) =
           (concat (map (\<lambda>f. [PrintFile (fst f), PrintLen (length (models_of (snd f)))]) pre) @
              [PrintFile stem],
            Inl (KeyError ''data''))"
proof -
  from assms(1) have e: "load_brand_codes (JObj doc) = Inl (KeyError ''data'')"
    by (simp add: load_brand_codes_def)
  from dir_loop_fails [OF assms(2) e] e show ?thesis
    by (simp add: load_brand_codes_from_dir_def)
qed

theorem load_brand_codes_from_dir_missing_data_aborts_witness:
  "map_of no_data ''data'' = None \<and> loads brand_64 \<and>
   load_brand_codes_from_dir
     [(''64'', brand_64), (''1'', JObj no_data), (''65'', brand_empty_tree)] =
     ([PrintFile ''64'', PrintLen 3, PrintFile ''1''], Inl (KeyError ''data''))"
proof -
  have a: "map_of no_data ''data'' = None" by (simp add: no_data_def)
  have l: "loads brand_64" by (simp add: loads_def brand_64_loads)
  then have b: "\<forall>f \<in> set [(''64'', brand_64)]. loads (snd f)" by simp
  have m: "models_of brand_64 = [model_3445, model_power, model_power_r]"
    by (simp add: models_of_def brand_64_loads)
  from load_brand_codes_from_dir_missing_data_aborts
         [OF a b, of "''1''" "[(''65'', brand_empty_tree)]"] a l
  show ?thesis by (simp add: m)
qed

subsection \<open>What the function returns\<close>

text \<open>
  C7, as stated, fails: \<^verbatim>\<open>load_brand_codes_from_dir\<close> does not call \<^verbatim>\<open>build_patterns\<close>.
  For a directory with the one document above, the value under the stem is the list of
  the three models of \<^verbatim>\<open>load_brand_codes\<close>, dicts that still hold the encrypted blobs,
  and the count is in what is printed, not in what is returned.
\<close>

theorem load_brand_codes_from_dir_counterexample:
  "load_brand_codes_from_dir [(''64'', brand_64)] =
     ([PrintFile ''64'', PrintLen 3, PrintTotal 3],
      Inr [(''64'', [model_3445, model_power, model_power_r])])"
  by (simp add: load_brand_codes_from_dir_def brand_64_loads)

text \<open>
  C7, amended: when every document of the directory loads, \<^verbatim>\<open>load_brand_codes_from_dir\<close>
  returns the dict whose keys are the file stems, in order, and whose value for a stem is
  the list of models \<^verbatim>\<open>load_brand_codes\<close> returns for that document; it prints, for each
  file, its name and the number of its models, and last the total number of models.
\<close>

theorem load_brand_codes_from_dir_returns_models:
  assumes "\<forall>f \<in> set directory. loads (snd f)" and "distinct (map fst directory)"
  shows "load_brand_codes_from_dir directory =
     (concat (map (\<lambda>f. [PrintFile (fst f), PrintLen (length (models_of (snd f)))])
                  directory) @
        [PrintTotal (sum_list (map (\<lambda>f. length (models_of (snd f))) directory))],
      Inr (map (\<lambda>f. (fst f, models_of (snd f))) directory))"
  using dir_loop_ok [OF assms, of "[]" 0] by (simp add: load_brand_codes_from_dir_def)

theorem load_brand_codes_from_dir_returns_models_witness:
  "loads brand_64 \<and> loads brand_empty_tree \<and>
   load_brand_codes_from_dir [(''64'', brand_64), (''65'', brand_empty_tree)] =
     ([PrintFile ''64'', PrintLen 3, PrintFile ''65'', PrintLen 1, PrintTotal 4],
      Inr [(''64'', [model_3445, model_power, model_power_r]), (''65'', [model_3445])])"
proof -
  have l: "loads brand_64" "loads brand_empty_tree"
    by (simp_all add: loads_def brand_64_loads brand_empty_tree_loads)
  then have a: "\<forall>f \<in> set [(''64'', brand_64), (''65'', brand_empty_tree)]. loads (snd f)"
    by simp
  have b: "distinct (map fst [(''64'', brand_64), (''65'', brand_empty_tree)])" by simp
  have m: "models_of brand_64 = [model_3445, model_power, model_power_r]"
      "models_of brand_empty_tree = [model_3445]"
    by (simp_all add: models_of_def brand_64_loads brand_empty_tree_loads)
  from load_brand_codes_from_dir_returns_models [OF a b] l
  show ?thesis by (simp add: m)
qed

end
